theory Spec2Isabelle
  imports Main "HOL-Library.AList" "HOL-Library.Word"
begin

section \<open>Storage of models and handlers (mindsdb/interfaces/storage/model\_fs.py)\<close>

text \<open>
  The module defines two classes, \<open>ModelStorage\<close> (one per predictor) and
  \<open>HandlerStorage\<close> (one per integration). Both work on three stores: the tables
  \<open>db.Predictor\<close> and \<open>db.Integration\<close>, the file storage made by
  \<open>FileStorageFactory\<close> and the JSON storage. The methods are embedded as functions
  that take the world (tables, local folder, remote side, JSON values) and return
  it updated, together with the value returned or the exception raised.
\<close>

subsection \<open>Python values and exceptions\<close>

text \<open>
  The values kept in the JSON columns of the tables. A Python \<open>dict\<close> with string
  keys is a map; two dicts are equal when they have the same keys and values.
\<close>

datatype pyval =
    PyNone
  | PyBool bool
  | PyInt int
  | PyStr string
  | PyDict "string \<rightharpoonup> pyval"

fun isinstance_dict :: "pyval \<Rightarrow> bool" where
  "isinstance_dict (PyDict d) = True"
| "isinstance_dict v = False"

datatype error =
    KeyError string
  | AttributeError
  | TypeError
  | NotADirectoryError
  | IsADirectoryError

subsection \<open>Strings: \<open>str.lower\<close>, \<open>str.replace\<close> and \<open>re.sub\<close>\<close>

text \<open>
  A \<open>char\<close> stands for a code point below 256. There \<open>str.lower\<close> moves
  \<open>A\<close>..\<open>Z\<close> and the capital letters \<open>U+00C0\<close>..\<open>U+00DE\<close> (without the
  multiplication sign \<open>U+00D7\<close>) up by 32 and leaves every other code point, and
  \<open>\d\<close> matches the ten digits \<open>0\<close>..\<open>9\<close> only.
\<close>

definition lower_char :: "char \<Rightarrow> char" where
  "lower_char c =
     (let n = (of_char c :: nat)
      in if (65 \<le> n \<and> n \<le> 90) \<or> (192 \<le> n \<and> n \<le> 222 \<and> n \<noteq> 215)
         then char_of (n + 32) else c)"

definition lower :: "string \<Rightarrow> string" where
  "lower s = map lower_char s"

text \<open>\<open>s.replace(a, b)\<close> for one-character strings \<open>a\<close> and \<open>b\<close>.\<close>

definition replace :: "char \<Rightarrow> char \<Rightarrow> string \<Rightarrow> string" where
  "replace a b s = map (\<lambda>c. if c = a then b else c) s"

text \<open>
  The characters that the class \<open>[^a-z^A-Z^_\d]\<close> does not match: the first \<open>^\<close>
  negates the class, the two others are members of it, so the class excludes
  \<open>a\<close>..\<open>z\<close>, \<open>^\<close>, \<open>A\<close>..\<open>Z\<close>, \<open>_\<close> and the digits.
\<close>

definition kept :: "char \<Rightarrow> bool" where
  "kept c =
     (let n = (of_char c :: nat)
      in (97 \<le> n \<and> n \<le> 122) \<or> c = CHR ''^'' \<or> (65 \<le> n \<and> n \<le> 90)
         \<or> c = CHR ''_'' \<or> (48 \<le> n \<and> n \<le> 57))"

text \<open>
  \<open>re.sub(r'([^a-z^A-Z^_\d]+)', '_', name)\<close>: scanning from the left, every maximal
  run of characters matched by the class is replaced by one \<open>_\<close>.
\<close>

function re_sub :: "string \<Rightarrow> string" where
  "re_sub [] = []"
| "re_sub (c # cs) =
     (if kept c then c # re_sub cs
      else CHR ''_'' # re_sub (dropWhile (\<lambda>d. \<not> kept d) cs))"
  by pat_completeness auto
termination
  by (relation "measure length") (auto simp: length_dropWhile_le less_Suc_eq_le)

text \<open>\<open>HandlerStorage.__convert_name\<close>.\<close>

definition convert_name :: "string \<Rightarrow> string" where
  "convert_name name = re_sub (replace CHR '' '' CHR ''_'' (lower name))"

subsection \<open>The local folder\<close>

type_synonym bytes = "8 word list"

text \<open>
  An entry of a directory is a regular file with its content or a directory with
  its entries, listed in the order in which \<open>iterdir\<close> and \<open>os.walk\<close> report them.
\<close>

datatype node = File bytes | Dir "(string \<times> node) list"

fun is_file :: "node \<Rightarrow> bool" where
  "is_file (File c) = True"
| "is_file (Dir es) = False"

text \<open>No two entries of a directory have the same name, at any depth.\<close>

fun wf_node :: "node \<Rightarrow> bool" where
  "wf_node (File c) = True"
| "wf_node (Dir es) = (distinct (map fst es) \<and> (\<forall>(n, nd) \<in> set es. wf_node nd))"

text \<open>The content of the regular file at a path (the names from the root down).\<close>

fun lookup :: "node \<Rightarrow> string list \<Rightarrow> bytes option" where
  "lookup (File c) [] = Some c"
| "lookup (File c) (n # p) = None"
| "lookup (Dir es) [] = None"
| "lookup (Dir es) (n # p) = (case map_of es n of None \<Rightarrow> None | Some nd \<Rightarrow> lookup nd p)"

subsection \<open>The world\<close>

text \<open>
  The rows of \<open>db.Predictor\<close> and \<open>db.Integration\<close>, with the columns this module
  reads and writes. The column \<open>data\<close> of an integration is \<open>integration_data\<close>
  here, since a predictor has a column of the same name.
\<close>

record Predictor =
  status :: pyval
  to_predict :: pyval
  data :: pyval
  learn_args :: pyval
  dtype_dict :: pyval
  training_phase_current :: pyval
  training_phase_total :: pyval
  training_phase_name :: pyval

record Integration =
  integration_data :: pyval

text \<open>The calls a storage object makes on its \<open>fileStorage\<close>, in order.\<close>

datatype call =
    PullPath string
  | PushPath string
  | GetPath string
  | FileGet string
  | FileSet string bytes

text \<open>
  \<open>folder\<close> is the content of \<open>fileStorage.folder_path\<close>, \<open>remote\<close> is whatever the
  file storage keeps beside it, \<open>jsons\<close> are the values of the JSON storage of the
  resource. The session commits at the end of every method that changes a row, so
  a table always holds the committed rows.
\<close>

record 'r world =
  predictors :: "int \<rightharpoonup> Predictor"
  integrations :: "int \<rightharpoonup> Integration"
  folder :: "(string \<times> node) list"
  remote :: 'r
  calls :: "call list"
  jsons :: "string \<rightharpoonup> pyval"

text \<open>
  Module \<open>fs\<close> is not among the sources. Its constant \<open>SERVICE_FILES_NAMES\<close> and what
  the methods of a \<open>FileStorage\<close> do to the local folder and to the remote side are
  parameters of the model.
\<close>

record 'r FileStorage =
  SERVICE_FILES_NAMES :: "string list"
  on_pull_path :: "string \<Rightarrow> (string \<times> node) list \<times> 'r \<Rightarrow> (string \<times> node) list \<times> 'r"
  on_push_path :: "string \<Rightarrow> (string \<times> node) list \<times> 'r \<Rightarrow> (string \<times> node) list \<times> 'r"
  on_file_get :: "string \<Rightarrow> (string \<times> node) list \<times> 'r \<Rightarrow> bytes option"
  on_file_set :: "string \<Rightarrow> bytes \<Rightarrow> (string \<times> node) list \<times> 'r \<Rightarrow> (string \<times> node) list \<times> 'r"

definition fileStorage_pull_path :: "'r FileStorage \<Rightarrow> string \<Rightarrow> 'r world \<Rightarrow> 'r world" where
  "fileStorage_pull_path fs name w =
     (let (f, r) = on_pull_path fs name (folder w, remote w)
      in w\<lparr>folder := f, remote := r, calls := calls w @ [PullPath name]\<rparr>)"

definition fileStorage_push_path :: "'r FileStorage \<Rightarrow> string \<Rightarrow> 'r world \<Rightarrow> 'r world" where
  "fileStorage_push_path fs name w =
     (let (f, r) = on_push_path fs name (folder w, remote w)
      in w\<lparr>folder := f, remote := r, calls := calls w @ [PushPath name]\<rparr>)"

definition fileStorage_file_get :: "'r FileStorage \<Rightarrow> string \<Rightarrow> 'r world \<Rightarrow> bytes option \<times> 'r world" where
  "fileStorage_file_get fs name w =
     (on_file_get fs name (folder w, remote w), w\<lparr>calls := calls w @ [FileGet name]\<rparr>)"

definition fileStorage_file_set :: "'r FileStorage \<Rightarrow> string \<Rightarrow> bytes \<Rightarrow> 'r world \<Rightarrow> 'r world" where
  "fileStorage_file_set fs name content w =
     (let (f, r) = on_file_set fs name content (folder w, remote w)
      in w\<lparr>folder := f, remote := r, calls := calls w @ [FileSet name content]\<rparr>)"

text \<open>
  Modelled from the spec: \<open>getPath(name)\<close> returns the local filesystem location of
  \<open>name\<close>. A location is written relative to the local folder, so the location of
  the empty name is the folder itself.
\<close>

definition fileStorage_get_path :: "'r FileStorage \<Rightarrow> string \<Rightarrow> 'r world \<Rightarrow> string \<times> 'r world" where
  "fileStorage_get_path fs name w = (name, w\<lparr>calls := calls w @ [GetPath name]\<rparr>)"

text \<open>
  Modelled from the spec: the JSON store, \<open>set(name, data)\<close> and \<open>get(name)\<close> scoped to
  the resource; \<open>get\<close> of a name never set gives \<open>None\<close>.
\<close>

definition json_storage_set :: "string \<Rightarrow> pyval \<Rightarrow> 'r world \<Rightarrow> pyval \<times> 'r world" where
  "json_storage_set name v w = (PyNone, w\<lparr>jsons := (jsons w)(name \<mapsto> v)\<rparr>)"

definition json_storage_get :: "string \<Rightarrow> 'r world \<Rightarrow> pyval \<times> 'r world" where
  "json_storage_get name w = (case jsons w name of None \<Rightarrow> (PyNone, w) | Some v \<Rightarrow> (v, w))"

subsection \<open>ModelStorage\<close>

text \<open>Both classes keep the file storage of their resource in \<open>self.fileStorage\<close>.\<close>

record 'r Storage =
  fileStorage :: "'r FileStorage"

record 'r ModelStorage = "'r Storage" +
  predictor_id :: int

text \<open>
  \<open>_get_model_record\<close>: the row of \<open>self.predictor_id\<close> (the argument \<open>model_id\<close> is
  not used by the source), or \<open>None\<close>.
\<close>

definition get_model_record ::
  "'r ModelStorage \<Rightarrow> int \<Rightarrow> bool \<Rightarrow> 'r world \<Rightarrow> error + Predictor option" where
  "get_model_record self model_id check_exists w =
     (let model_record = predictors w (predictor_id self)
      in if check_exists \<and> model_record = None
         then Inl (KeyError ''Model does not exists'')
         else Inr model_record)"

text \<open>
  \<open>dict.update\<close>: the keys of the argument are set one by one, so they override
  the keys already there. Only a dict has the method.
\<close>

fun dict_update :: "pyval \<Rightarrow> (string \<rightharpoonup> pyval) \<Rightarrow> error + pyval" where
  "dict_update (PyDict d) patch = Inr (PyDict (d ++ patch))"
| "dict_update v patch = Inl AttributeError"

definition update_data ::
  "'r ModelStorage \<Rightarrow> (string \<rightharpoonup> pyval) \<Rightarrow> 'r world \<Rightarrow> (error + unit) \<times> 'r world" where
  "update_data self patch w =
     (case get_model_record self (predictor_id self) True w of
        Inl e \<Rightarrow> (Inl e, w)
      | Inr None \<Rightarrow> (Inl AttributeError, w)
      | Inr (Some model_record) \<Rightarrow>
          (if \<not> isinstance_dict (data model_record)
           then (Inr (), w\<lparr>predictors := (predictors w)
                   (predictor_id self \<mapsto> model_record\<lparr>data := PyDict patch\<rparr>)\<rparr>)
           else (case dict_update (data model_record) patch of
                   Inl e \<Rightarrow> (Inl e, w)
                 | Inr d \<Rightarrow> (Inr (), w\<lparr>predictors := (predictors w)
                     (predictor_id self \<mapsto> model_record\<lparr>data := d\<rparr>)\<rparr>))))"

definition update_learn_args ::
  "'r ModelStorage \<Rightarrow> (string \<rightharpoonup> pyval) \<Rightarrow> 'r world \<Rightarrow> (error + unit) \<times> 'r world" where
  "update_learn_args self patch w =
     (case get_model_record self (predictor_id self) True w of
        Inl e \<Rightarrow> (Inl e, w)
      | Inr None \<Rightarrow> (Inl AttributeError, w)
      | Inr (Some model_record) \<Rightarrow>
          (if \<not> isinstance_dict (learn_args model_record)
           then (Inr (), w\<lparr>predictors := (predictors w)
                   (predictor_id self \<mapsto> model_record\<lparr>learn_args := PyDict patch\<rparr>)\<rparr>)
           else (case dict_update (learn_args model_record) patch of
                   Inl e \<Rightarrow> (Inl e, w)
                 | Inr d \<Rightarrow> (Inr (), w\<lparr>predictors := (predictors w)
                     (predictor_id self \<mapsto> model_record\<lparr>learn_args := d\<rparr>)\<rparr>))))"

text \<open>
  \<open>status_set\<close> looks the row up without \<open>check_exists\<close>; on \<open>None\<close> the assignment
  \<open>rec.status = status\<close> raises. \<open>status_info\<close> defaults to \<open>None\<close>.
\<close>

definition status_set ::
  "'r ModelStorage \<Rightarrow> pyval \<Rightarrow> pyval \<Rightarrow> 'r world \<Rightarrow> (error + unit) \<times> 'r world" where
  "status_set self new_status status_info w =
     (case get_model_record self (predictor_id self) False w of
        Inl e \<Rightarrow> (Inl e, w)
      | Inr None \<Rightarrow> (Inl AttributeError, w)
      | Inr (Some rec) \<Rightarrow>
          (let rec1 = rec\<lparr>status := new_status\<rparr>;
               rec2 = (if status_info \<noteq> PyNone then rec1\<lparr>data := status_info\<rparr> else rec1)
           in (Inr (), w\<lparr>predictors := (predictors w)(predictor_id self \<mapsto> rec2)\<rparr>)))"

definition ModelStorage_file_get ::
  "'r ModelStorage \<Rightarrow> string \<Rightarrow> 'r world \<Rightarrow> bytes option \<times> 'r world" where
  "ModelStorage_file_get self name w = fileStorage_file_get (fileStorage self) name w"

definition ModelStorage_file_set ::
  "'r ModelStorage \<Rightarrow> string \<Rightarrow> bytes \<Rightarrow> 'r world \<Rightarrow> 'r world" where
  "ModelStorage_file_set self name content w = fileStorage_file_set (fileStorage self) name content w"

definition ModelStorage_folder_get ::
  "'r ModelStorage \<Rightarrow> string \<Rightarrow> 'r world \<Rightarrow> string \<times> 'r world" where
  "ModelStorage_folder_get self name w =
     (let name1 = replace CHR '' '' CHR ''_'' (lower name);
          name2 = re_sub name1;
          w1 = fileStorage_pull_path (fileStorage self) name2 w
      in fileStorage_get_path (fileStorage self) name2 w1)"

definition ModelStorage_folder_sync ::
  "'r ModelStorage \<Rightarrow> string \<Rightarrow> 'r world \<Rightarrow> 'r world" where
  "ModelStorage_folder_sync self name w =
     (let name1 = replace CHR '' '' CHR ''_'' (lower name);
          name2 = re_sub name1
      in fileStorage_push_path (fileStorage self) name2 w)"

text \<open>The bodies of the next four methods are \<open>...\<close>: they return \<open>None\<close>.\<close>

definition ModelStorage_file_list :: "'r ModelStorage \<Rightarrow> 'r world \<Rightarrow> pyval \<times> 'r world" where
  "ModelStorage_file_list self w = (PyNone, w)"

definition ModelStorage_file_del :: "'r ModelStorage \<Rightarrow> string \<Rightarrow> 'r world \<Rightarrow> pyval \<times> 'r world" where
  "ModelStorage_file_del self name w = (PyNone, w)"

definition ModelStorage_json_list :: "'r ModelStorage \<Rightarrow> 'r world \<Rightarrow> pyval \<times> 'r world" where
  "ModelStorage_json_list self w = (PyNone, w)"

definition ModelStorage_json_del :: "'r ModelStorage \<Rightarrow> string \<Rightarrow> 'r world \<Rightarrow> pyval \<times> 'r world" where
  "ModelStorage_json_del self name w = (PyNone, w)"

subsection \<open>HandlerStorage\<close>

record 'r HandlerStorage = "'r Storage" +
  integration_id :: int
  is_temporal :: bool

text \<open>
  \<open>is_empty\<close>: the loop over \<open>folder_path.iterdir()\<close> skips an entry that is a regular
  file with a service name and returns \<open>False\<close> at the first other entry.
\<close>

fun is_empty_loop :: "string list \<Rightarrow> (string \<times> node) list \<Rightarrow> bool" where
  "is_empty_loop names [] = True"
| "is_empty_loop names ((name, nd) # rest) =
     (if is_file nd \<and> name \<in> set names then is_empty_loop names rest else False)"

definition is_empty :: "'r HandlerStorage \<Rightarrow> 'r world \<Rightarrow> bool" where
  "is_empty self w = is_empty_loop (SERVICE_FILES_NAMES (fileStorage self)) (folder w)"

definition get_connection_args ::
  "'r HandlerStorage \<Rightarrow> 'r world \<Rightarrow> (error + pyval) \<times> 'r world" where
  "get_connection_args self w =
     (case integrations w (integration_id self) of
        None \<Rightarrow> (Inl AttributeError, w)
      | Some rec \<Rightarrow> (Inr (integration_data rec), w))"

definition update_connection_args ::
  "'r HandlerStorage \<Rightarrow> pyval \<Rightarrow> 'r world \<Rightarrow> (error + unit) \<times> 'r world" where
  "update_connection_args self connection_args w =
     (case integrations w (integration_id self) of
        None \<Rightarrow> (Inl (KeyError ''Can't find integration''), w)
      | Some rec \<Rightarrow>
          (Inr (), w\<lparr>integrations := (integrations w)
             (integration_id self \<mapsto> rec\<lparr>integration_data := connection_args\<rparr>)\<rparr>))"

definition HandlerStorage_file_get ::
  "'r HandlerStorage \<Rightarrow> string \<Rightarrow> 'r world \<Rightarrow> bytes option \<times> 'r world" where
  "HandlerStorage_file_get self name w =
     (let w1 = fileStorage_pull_path (fileStorage self) name w
      in fileStorage_file_get (fileStorage self) name w1)"

definition HandlerStorage_file_set ::
  "'r HandlerStorage \<Rightarrow> string \<Rightarrow> bytes \<Rightarrow> 'r world \<Rightarrow> 'r world" where
  "HandlerStorage_file_set self name content w =
     (let w1 = fileStorage_file_set (fileStorage self) name content w
      in if \<not> is_temporal self then fileStorage_push_path (fileStorage self) name w1 else w1)"

definition HandlerStorage_file_list :: "'r HandlerStorage \<Rightarrow> 'r world \<Rightarrow> pyval \<times> 'r world" where
  "HandlerStorage_file_list self w = (PyNone, w)"

definition HandlerStorage_file_del :: "'r HandlerStorage \<Rightarrow> string \<Rightarrow> 'r world \<Rightarrow> pyval \<times> 'r world" where
  "HandlerStorage_file_del self name w = (PyNone, w)"

definition HandlerStorage_folder_get ::
  "'r HandlerStorage \<Rightarrow> string \<Rightarrow> 'r world \<Rightarrow> string \<times> 'r world" where
  "HandlerStorage_folder_get self name w =
     (let name1 = convert_name name;
          w1 = fileStorage_pull_path (fileStorage self) name1 w
      in fileStorage_get_path (fileStorage self) name1 w1)"

definition HandlerStorage_folder_sync ::
  "'r HandlerStorage \<Rightarrow> string \<Rightarrow> 'r world \<Rightarrow> 'r world" where
  "HandlerStorage_folder_sync self name w =
     (if is_temporal self then w
      else fileStorage_push_path (fileStorage self) (convert_name name) w)"

definition HandlerStorage_json_set ::
  "'r HandlerStorage \<Rightarrow> string \<Rightarrow> pyval \<Rightarrow> 'r world \<Rightarrow> pyval \<times> 'r world" where
  "HandlerStorage_json_set self name content w = json_storage_set name content w"

definition HandlerStorage_json_get ::
  "'r HandlerStorage \<Rightarrow> string \<Rightarrow> 'r world \<Rightarrow> pyval \<times> 'r world" where
  "HandlerStorage_json_get self name w = json_storage_get name w"

definition HandlerStorage_json_list :: "'r HandlerStorage \<Rightarrow> 'r world \<Rightarrow> pyval \<times> 'r world" where
  "HandlerStorage_json_list self w = (PyNone, w)"

definition HandlerStorage_json_del :: "'r HandlerStorage \<Rightarrow> string \<Rightarrow> 'r world \<Rightarrow> pyval \<times> 'r world" where
  "HandlerStorage_json_del self name w = (PyNone, w)"

subsection \<open>Archives\<close>

text \<open>
  The bytes of a zip archive are represented by the members they encode, in the
  order written: the name of a member as the list of its path components, and its
  data. \<open>zipfile\<close> writes and reads back the same members.
\<close>

type_synonym archive = "(string list \<times> bytes) list"

text \<open>
  The inner loop of \<open>export_files\<close> over the \<open>files\<close> of one directory \<open>root\<close>: a file
  with a service name is skipped, any other is written under its path relative to
  the folder.
\<close>

fun zip_files :: "string list \<Rightarrow> string list \<Rightarrow> (string \<times> node) list \<Rightarrow> archive" where
  "zip_files names root [] = []"
| "zip_files names root ((file_name, File c) # es) =
     (if file_name \<in> set names then zip_files names root es
      else (root @ [file_name], c) # zip_files names root es)"
| "zip_files names root ((dir_name, Dir ds) # es) = zip_files names root es"

text \<open>
  The outer loop over \<open>os.walk(folder_path)\<close>, top down: the files of a directory,
  then each of its subdirectories in turn.
\<close>

fun walk :: "string list \<Rightarrow> string list \<Rightarrow> node \<Rightarrow> archive" where
  "walk names root (File c) = []"
| "walk names root (Dir es) =
     zip_files names root es @ concat (map (\<lambda>(n, nd). walk names (root @ [n]) nd) es)"

text \<open>
  \<open>ZipFile.extractall\<close> extracts the members in order. For one member the missing
  directories of its path are made and the file is opened for writing; a path that
  runs through a regular file, or ends at a directory, raises and changes nothing.
\<close>

fun create :: "string list \<Rightarrow> bytes \<Rightarrow> node" where
  "create [] c = File c"
| "create (n # p) c = Dir [(n, create p c)]"

fun write_member :: "string list \<Rightarrow> bytes \<Rightarrow> node \<Rightarrow> error + node" where
  "write_member [] c (File old) = Inr (File c)"
| "write_member [] c (Dir es) = Inl IsADirectoryError"
| "write_member (n # p) c (File old) = Inl NotADirectoryError"
| "write_member (n # p) c (Dir es) =
     (case map_of es n of
        None \<Rightarrow> Inr (Dir (es @ [(n, create p c)]))
      | Some nd \<Rightarrow>
          (case write_member p c nd of
             Inl e \<Rightarrow> Inl e
           | Inr nd' \<Rightarrow> Inr (Dir (AList.update n nd' es))))"

fun extractall :: "archive \<Rightarrow> node \<Rightarrow> error option \<times> node" where
  "extractall [] nd = (None, nd)"
| "extractall ((p, c) # members) nd =
     (case write_member p c nd of
        Inl e \<Rightarrow> (Some e, nd)
      | Inr nd' \<Rightarrow> extractall members nd')"

fun entries :: "node \<Rightarrow> (string \<times> node) list" where
  "entries (Dir es) = es"
| "entries (File c) = []"

text \<open>
  \<open>export_files\<close>. \<open>folder_path\<close> is the location of the empty name, the local folder
  itself, so \<open>os.walk(folder_path)\<close> walks the folder as the pull has left it.
\<close>

definition HandlerStorage_export_files :: "'r HandlerStorage \<Rightarrow> 'r world \<Rightarrow> archive option \<times> 'r world" where
  "HandlerStorage_export_files self w =
     (if is_empty self w then (None, w)
      else (let (folder_path, w1) = HandlerStorage_folder_get self [] w
            in (Some (walk (SERVICE_FILES_NAMES (fileStorage self)) [] (Dir (folder w1))), w1)))"

text \<open>
  \<open>import_files\<close>. \<open>content\<close> is \<open>None\<close> or the bytes of an archive; writing \<open>None\<close> into
  the \<open>BytesIO\<close> raises. When a member cannot be extracted the folder keeps what was
  extracted before it and nothing is pushed.
\<close>

definition HandlerStorage_import_files ::
  "'r HandlerStorage \<Rightarrow> archive option \<Rightarrow> 'r world \<Rightarrow> (error + unit) \<times> 'r world" where
  "HandlerStorage_import_files self content w =
     (let (folder_path, w1) = HandlerStorage_folder_get self [] w
      in case content of
           None \<Rightarrow> (Inl TypeError, w1)
         | Some members \<Rightarrow>
             (case extractall members (Dir (folder w1)) of
                (Some e, nd) \<Rightarrow> (Inl e, w1\<lparr>folder := entries nd\<rparr>)
              | (None, nd) \<Rightarrow>
                  (Inr (), HandlerStorage_folder_sync self [] (w1\<lparr>folder := entries nd\<rparr>))))"

subsection \<open>Sequences of calls on a HandlerStorage\<close>

datatype handler_op =
    IsEmpty
  | GetConnectionArgs
  | UpdateConnectionArgs pyval
  | FileGetOp string
  | FileSetOp string bytes
  | FileListOp
  | FileDelOp string
  | FolderGetOp string
  | FolderSyncOp string
  | JsonSetOp string pyval
  | JsonGetOp string
  | JsonListOp
  | JsonDelOp string
  | ExportFiles
  | ImportFiles "archive option"

text \<open>The world after one method call (also when the call raises).\<close>

fun perform :: "'r HandlerStorage \<Rightarrow> handler_op \<Rightarrow> 'r world \<Rightarrow> 'r world" where
  "perform self IsEmpty w = w"
| "perform self GetConnectionArgs w = snd (get_connection_args self w)"
| "perform self (UpdateConnectionArgs a) w = snd (update_connection_args self a w)"
| "perform self (FileGetOp name) w = snd (HandlerStorage_file_get self name w)"
| "perform self (FileSetOp name content) w = HandlerStorage_file_set self name content w"
| "perform self FileListOp w = snd (HandlerStorage_file_list self w)"
| "perform self (FileDelOp name) w = snd (HandlerStorage_file_del self name w)"
| "perform self (FolderGetOp name) w = snd (HandlerStorage_folder_get self name w)"
| "perform self (FolderSyncOp name) w = HandlerStorage_folder_sync self name w"
| "perform self (JsonSetOp name content) w = snd (HandlerStorage_json_set self name content w)"
| "perform self (JsonGetOp name) w = snd (HandlerStorage_json_get self name w)"
| "perform self JsonListOp w = snd (HandlerStorage_json_list self w)"
| "perform self (JsonDelOp name) w = snd (HandlerStorage_json_del self name w)"
| "perform self ExportFiles w = snd (HandlerStorage_export_files self w)"
| "perform self (ImportFiles content) w = snd (HandlerStorage_import_files self content w)"

fun is_push :: "call \<Rightarrow> bool" where
  "is_push (PushPath name) = True"
| "is_push c = False"

subsection \<open>Two file storages\<close>

text \<open>
  A file storage without a remote side: pull and push do nothing, a file is written
  into and read from the local folder.
\<close>

definition local_store :: "unit FileStorage" where
  "local_store =
     \<lparr>SERVICE_FILES_NAMES = [''.last_modified.txt''],
      on_pull_path = (\<lambda>name s. s),
      on_push_path = (\<lambda>name s. s),
      on_file_get = (\<lambda>name (f, r). case map_of f name of Some (File c) \<Rightarrow> Some c | _ \<Rightarrow> None),
      on_file_set = (\<lambda>name c (f, r). (AList.update name (File c) f, r))\<rparr>"

text \<open>
  A file storage whose remote side is a copy of the folder: a pull replaces the
  local folder by the remote copy, a push replaces the remote copy by the folder.
\<close>

definition mirror_store :: "(string \<times> node) list FileStorage" where
  "mirror_store =
     \<lparr>SERVICE_FILES_NAMES = [''.last_modified.txt''],
      on_pull_path = (\<lambda>name (f, r). (r, r)),
      on_push_path = (\<lambda>name (f, r). (f, f)),
      on_file_get = (\<lambda>name (f, r). case map_of f name of Some (File c) \<Rightarrow> Some c | _ \<Rightarrow> None),
      on_file_set = (\<lambda>name c (f, r). (AList.update name (File c) f, r))\<rparr>"

subsection \<open>The merge of the specification, and the objects of the examples\<close>

text \<open>
  The merge as the specification words it: the keys of the patch override the keys
  of the current mapping; a current value that is not a mapping is replaced by the
  patch.
\<close>

definition spec_merge :: "pyval \<Rightarrow> (string \<rightharpoonup> pyval) \<Rightarrow> pyval" where
  "spec_merge current patch =
     (case current of
        PyDict d \<Rightarrow> PyDict (\<lambda>k. case patch k of Some v \<Rightarrow> Some v | None \<Rightarrow> d k)
      | _ \<Rightarrow> PyDict patch)"

text \<open>The column \<open>data\<close> of the predictor of a \<open>ModelStorage\<close>, if the row exists.\<close>

definition data_of :: "'r ModelStorage \<Rightarrow> 'r world \<Rightarrow> pyval option" where
  "data_of self w = map_option data (predictors w (predictor_id self))"

definition predictor0 :: Predictor where
  "predictor0 = \<lparr>status = PyStr ''training'', to_predict = PyNone, data = PyNone,
     learn_args = PyDict [''a'' \<mapsto> PyInt 1], dtype_dict = PyNone, training_phase_current = PyNone,
     training_phase_total = PyNone, training_phase_name = PyNone\<rparr>"

definition world0 :: "unit world" where
  "world0 = \<lparr>predictors = [1 \<mapsto> predictor0],
     integrations = [1 \<mapsto> \<lparr>integration_data = PyDict [''host'' \<mapsto> PyStr ''h'']\<rparr>],
     folder = [], remote = (), calls = [], jsons = Map.empty\<rparr>"

definition model0 :: "unit ModelStorage" where
  "model0 = \<lparr>fileStorage = local_store, predictor_id = 1\<rparr>"

definition world1 :: "unit world" where
  "world1 = world0\<lparr>predictors := [1 \<mapsto> predictor0\<lparr>data := PyDict [''a'' \<mapsto> PyInt 1]\<rparr>]\<rparr>"

definition handler0 :: "unit HandlerStorage" where
  "handler0 = \<lparr>fileStorage = local_store, integration_id = 1, is_temporal = False\<rparr>"

definition temporal0 :: "unit HandlerStorage" where
  "temporal0 = \<lparr>fileStorage = local_store, integration_id = 1, is_temporal = True\<rparr>"

subsection \<open>Notions for the round trip of an archive\<close>

text \<open>
  \<open>within x y\<close>: every file and directory of \<open>x\<close> is in \<open>y\<close> at the same place, a
  file with the same content.
\<close>

fun within :: "node \<Rightarrow> node \<Rightarrow> bool" where
  "within (File c) (File c') = (c = c')"
| "within (Dir es) (Dir es') =
     (\<forall>(n, x) \<in> set es. case map_of es' n of None \<Rightarrow> False | Some y \<Rightarrow> within x y)"
| "within (File c) (Dir es') = False"
| "within (Dir es) (File c') = False"

text \<open>
  \<open>export_files\<close> and \<open>import_files\<close> start with \<open>folder_get('')\<close>, which pulls the
  whole folder. \<open>pulled self w\<close> is the local folder as that pull leaves it in the
  world \<open>w\<close>, and \<open>pull_keeps self w\<close> says that this pull, in this world, leaves the
  folder as it is.
\<close>

definition pulled :: "'r HandlerStorage \<Rightarrow> 'r world \<Rightarrow> (string \<times> node) list" where
  "pulled self w = fst (on_pull_path (fileStorage self) [] (folder w, remote w))"

definition pull_keeps :: "'r HandlerStorage \<Rightarrow> 'r world \<Rightarrow> bool" where
  "pull_keeps self w = (pulled self w = folder w)"

text \<open>
  \<open>import_files\<close> ends with \<open>folder_sync('')\<close>. \<open>push_keeps self w\<close> says that this call,
  in the world \<open>w\<close>, leaves the local folder as it is: the storage is temporal and
  does not push, or the push of the whole folder does not touch the folder.
\<close>

definition push_keeps :: "'r HandlerStorage \<Rightarrow> 'r world \<Rightarrow> bool" where
  "push_keeps self w =
     (is_temporal self \<or> fst (on_push_path (fileStorage self) [] (folder w, remote w)) = folder w)"

text \<open>
  The regular files of a folder, as pairs of path and content, and those of them
  whose name is not a service name.
\<close>

definition files_of :: "(string \<times> node) list \<Rightarrow> (string list \<times> bytes) set" where
  "files_of es = {(p, c). lookup (Dir es) p = Some c}"

definition non_service_files ::
  "string list \<Rightarrow> (string \<times> node) list \<Rightarrow> (string list \<times> bytes) set" where
  "non_service_files names es = {(p, c). lookup (Dir es) p = Some c \<and> last p \<notin> set names}"

text \<open>The folders and handlers of the examples.\<close>

definition folder0 :: "(string \<times> node) list" where
  "folder0 =
     [(''.last_modified.txt'', File [0]),
      (''model.bin'', File [1, 2]),
      (''sub'', Dir [(''a.txt'', File [3]), (''.last_modified.txt'', File [4])])]"

definition mirror_handler :: "(string \<times> node) list HandlerStorage" where
  "mirror_handler = \<lparr>fileStorage = mirror_store, integration_id = 1, is_temporal = False\<rparr>"

definition mirror_world :: "(string \<times> node) list world" where
  "mirror_world =
     \<lparr>predictors = Map.empty, integrations = Map.empty,
      folder = [(''a.txt'', File [1])], remote = [(''b.txt'', File [2])],
      calls = [], jsons = Map.empty\<rparr>"

text \<open>
  A world of the mirror storage in which the remote copy equals the folder, and
  one in which both are empty.
\<close>

definition synced_world :: "(string \<times> node) list world" where
  "synced_world =
     \<lparr>predictors = Map.empty, integrations = Map.empty,
      folder = folder0, remote = folder0, calls = [], jsons = Map.empty\<rparr>"

definition fresh_world :: "(string \<times> node) list world" where
  "fresh_world =
     \<lparr>predictors = Map.empty, integrations = Map.empty,
      folder = [], remote = [], calls = [], jsons = Map.empty\<rparr>"

section \<open>Properties\<close>

subsection \<open>Name normalisation\<close>

lemma lower_char_idem: "lower_char (lower_char x) = lower_char x"
  by (auto simp: lower_char_def Let_def)

lemma kept_not_space: "kept c \<Longrightarrow> c \<noteq> CHR '' ''"
  by (auto simp: kept_def)

lemma kept_underscore: "kept CHR ''_''"
  by (simp add: kept_def)

lemma set_re_sub: "c \<in> set (re_sub s) \<Longrightarrow> c = CHR ''_'' \<or> c \<in> set s"
  by (induction s rule: re_sub.induct) (auto split: if_splits dest: set_dropWhileD)

lemma re_sub_kept: "c \<in> set (re_sub s) \<Longrightarrow> kept c"
  by (induction s rule: re_sub.induct) (auto split: if_splits simp: kept_underscore)

lemma re_sub_id: "\<forall>c \<in> set s. kept c \<Longrightarrow> re_sub s = s"
  by (induction s) auto

lemma lower_underscore: "lower_char CHR ''_'' = CHR ''_''"
  by (simp add: lower_char_def)

lemma convert_name_chars:
  assumes "c \<in> set (convert_name s)"
  shows "kept c \<and> c \<noteq> CHR '' '' \<and> lower_char c = c"
proof -
  have k: "kept c" using assms by (simp add: convert_name_def re_sub_kept)
  have "c = CHR ''_'' \<or> c \<in> set (replace CHR '' '' CHR ''_'' (lower s))"
    using assms set_re_sub by (simp add: convert_name_def)
  then have "c = CHR ''_'' \<or> (\<exists>x. c = lower_char x)"
    by (auto simp: replace_def lower_def split: if_splits)
  then have "lower_char c = c"
    by (auto simp: lower_underscore lower_char_idem)
  with k show ?thesis by (simp add: kept_not_space)
qed

text \<open>
  Claim C5. The name normalisation is idempotent: normalising a normalised name
  gives the same name.
\<close>

theorem convert_name_idempotent: "convert_name (convert_name s) = convert_name s"
proof -
  let ?t = "convert_name s"
  have l: "lower ?t = ?t"
    unfolding lower_def by (rule map_idI) (simp add: convert_name_chars)
  have r: "replace CHR '' '' CHR ''_'' ?t = ?t"
    unfolding replace_def by (rule map_idI) (use convert_name_chars in auto)
  have "re_sub ?t = ?t"
    by (rule re_sub_id) (simp add: convert_name_chars)
  with l r show ?thesis
    by (simp add: convert_name_def [of "convert_name s"])
qed

lemma convert_name_example: "convert_name ''My Folder!!1'' = ''my_folder_1''"
  by code_simp

text \<open>
  Claim C4. The normalisation lowers the name, turns a space into \<open>_\<close> and replaces
  every run matched by the class by one \<open>_\<close>; the name \<open>My Folder!!1\<close> becomes
  \<open>my_folder_1\<close>. The class of the source lists \<open>^\<close> among the characters it
  excludes, so a \<open>^\<close> stays in the name and the result is not always made of
  \<open>a\<close>..\<open>z\<close>, digits and \<open>_\<close> only.
\<close>

theorem convert_name_keeps_caret:
  "convert_name ''a^b'' = ''a^b'' \<and> CHR ''^'' \<in> set (convert_name ''a^b'')"
  by code_simp

subsection \<open>Predictor rows\<close>

lemma update_data_eq:
  assumes "predictors w (predictor_id self) = Some rec"
  shows "update_data self patch w =
      (Inr (), w\<lparr>predictors := (predictors w)(predictor_id self \<mapsto> rec\<lparr>data := spec_merge (data rec) patch\<rparr>)\<rparr>)"
  using assms
  by (cases "data rec") (auto simp: update_data_def get_model_record_def spec_merge_def map_add_def fun_eq_iff split: option.splits)

lemma update_learn_args_eq:
  assumes "predictors w (predictor_id self) = Some rec"
  shows "update_learn_args self patch w =
      (Inr (), w\<lparr>predictors := (predictors w)(predictor_id self \<mapsto> rec\<lparr>learn_args := spec_merge (learn_args rec) patch\<rparr>)\<rparr>)"
  using assms
  by (cases "learn_args rec") (auto simp: update_learn_args_def get_model_record_def spec_merge_def map_add_def fun_eq_iff split: option.splits)

text \<open>
  Claim C2. For an existing predictor row, \<open>update_data\<close> and \<open>update_learn_args\<close>
  merge the patch into the current mapping, the keys of the patch overriding, and
  replace a current value that is not a mapping by the patch. Starting from a
  value that is not a mapping or from the empty mapping, \<open>{a: 1}\<close> then \<open>{b: 2}\<close>
  leaves \<open>{a: 1, b: 2}\<close>, and \<open>{a: 1}\<close> then \<open>{a: 3}\<close> leaves \<open>{a: 3}\<close>.
\<close>

theorem update_data_merge:
  assumes "predictors w (predictor_id self) = Some rec"
  shows "update_data self patch w =
           (Inr (), w\<lparr>predictors := (predictors w)
              (predictor_id self \<mapsto> rec\<lparr>data := spec_merge (data rec) patch\<rparr>)\<rparr>)
       \<and> update_learn_args self patch w =
           (Inr (), w\<lparr>predictors := (predictors w)
              (predictor_id self \<mapsto> rec\<lparr>learn_args := spec_merge (learn_args rec) patch\<rparr>)\<rparr>)
       \<and> (\<not> isinstance_dict (data rec) \<or> data rec = PyDict Map.empty \<longrightarrow>
            data_of self (snd (update_data self [''b'' \<mapsto> PyInt 2]
               (snd (update_data self [''a'' \<mapsto> PyInt 1] w))))
              = Some (PyDict [''a'' \<mapsto> PyInt 1, ''b'' \<mapsto> PyInt 2])
          \<and> data_of self (snd (update_data self [''a'' \<mapsto> PyInt 3]
               (snd (update_data self [''a'' \<mapsto> PyInt 1] w))))
              = Some (PyDict [''a'' \<mapsto> PyInt 3]))"
proof (intro conjI impI)
  show "update_data self patch w =
           (Inr (), w\<lparr>predictors := (predictors w)
              (predictor_id self \<mapsto> rec\<lparr>data := spec_merge (data rec) patch\<rparr>)\<rparr>)"
    by (rule update_data_eq [OF assms])
  show "update_learn_args self patch w =
           (Inr (), w\<lparr>predictors := (predictors w)
              (predictor_id self \<mapsto> rec\<lparr>learn_args := spec_merge (learn_args rec) patch\<rparr>)\<rparr>)"
    by (rule update_learn_args_eq [OF assms])
next
  assume h: "\<not> isinstance_dict (data rec) \<or> data rec = PyDict Map.empty"
  have first: "spec_merge (data rec) [''a'' \<mapsto> PyInt 1] = PyDict [''a'' \<mapsto> PyInt 1]"
    using h by (cases "data rec") (auto simp: spec_merge_def fun_eq_iff)
  let ?w1 = "snd (update_data self [''a'' \<mapsto> PyInt 1] w)"
  have w1: "predictors ?w1 (predictor_id self) = Some (rec\<lparr>data := PyDict [''a'' \<mapsto> PyInt 1]\<rparr>)"
    by (simp add: update_data_eq [OF assms] first)
  show "data_of self (snd (update_data self [''b'' \<mapsto> PyInt 2] ?w1))
          = Some (PyDict [''a'' \<mapsto> PyInt 1, ''b'' \<mapsto> PyInt 2])"
    by (auto simp: update_data_eq [OF w1] data_of_def spec_merge_def fun_eq_iff)
  show "data_of self (snd (update_data self [''a'' \<mapsto> PyInt 3] ?w1))
          = Some (PyDict [''a'' \<mapsto> PyInt 3])"
    by (auto simp: update_data_eq [OF w1] data_of_def spec_merge_def fun_eq_iff)
qed

theorem update_data_merge_witness:
  "predictors world0 (predictor_id model0) = Some predictor0
   \<and> data_of model0 (snd (update_data model0 [''b'' \<mapsto> PyInt 2]
         (snd (update_data model0 [''a'' \<mapsto> PyInt 1] world0))))
       = Some (PyDict [''a'' \<mapsto> PyInt 1, ''b'' \<mapsto> PyInt 2])
   \<and> data_of model0 (snd (update_data model0 [''a'' \<mapsto> PyInt 3]
         (snd (update_data model0 [''a'' \<mapsto> PyInt 1] world0))))
       = Some (PyDict [''a'' \<mapsto> PyInt 3])
   \<and> map_option learn_args (predictors (snd (update_learn_args model0 [''a'' \<mapsto> PyInt 5, ''c'' \<mapsto> PyInt 7] world0)) 1)
       = Some (PyDict [''a'' \<mapsto> PyInt 5, ''c'' \<mapsto> PyInt 7])"
proof -
  have h: "predictors world0 (predictor_id model0) = Some predictor0"
    by (simp add: world0_def model0_def)
  have d: "\<not> isinstance_dict (data predictor0) \<or> data predictor0 = PyDict Map.empty"
    by (simp add: predictor0_def)
  have l: "spec_merge (learn_args predictor0) [''a'' \<mapsto> PyInt 5, ''c'' \<mapsto> PyInt 7]
        = PyDict [''a'' \<mapsto> PyInt 5, ''c'' \<mapsto> PyInt 7]"
    by (auto simp: spec_merge_def predictor0_def fun_eq_iff)
  from update_data_merge [OF h, of "[''a'' \<mapsto> PyInt 5, ''c'' \<mapsto> PyInt 7]"] d h l
  show ?thesis by (simp add: model0_def)
qed

text \<open>
  Claim C3. For an existing predictor row, \<open>status_set\<close> always sets the status; a
  \<open>status_info\<close> that is given replaces the whole of \<open>data\<close>: after \<open>{a: 1}\<close>,
  \<open>status_set("complete", {x: 1})\<close> leaves exactly \<open>{x: 1}\<close>.
\<close>

theorem status_set_replaces_data:
  assumes "predictors w (predictor_id self) = Some rec"
  shows "status_set self s info w =
           (Inr (), w\<lparr>predictors := (predictors w)(predictor_id self \<mapsto>
              rec\<lparr>status := s, data := (if info \<noteq> PyNone then info else data rec)\<rparr>)\<rparr>)
       \<and> (data rec = PyDict [''a'' \<mapsto> PyInt 1] \<longrightarrow>
            data_of self (snd (status_set self (PyStr ''complete'') (PyDict [''x'' \<mapsto> PyInt 1]) w))
              = Some (PyDict [''x'' \<mapsto> PyInt 1]))"
proof -
  have eq: "status_set self s info w =
           (Inr (), w\<lparr>predictors := (predictors w)(predictor_id self \<mapsto>
              rec\<lparr>status := s, data := (if info \<noteq> PyNone then info else data rec)\<rparr>)\<rparr>)" for s info
    using assms by (simp add: status_set_def get_model_record_def Let_def)
  show ?thesis
    by (simp add: eq data_of_def)
qed

theorem status_set_replaces_data_witness:
  "predictors world1 (predictor_id model0) = Some (predictor0\<lparr>data := PyDict [''a'' \<mapsto> PyInt 1]\<rparr>)
   \<and> data_of model0 (snd (status_set model0 (PyStr ''complete'') (PyDict [''x'' \<mapsto> PyInt 1]) world1))
       = Some (PyDict [''x'' \<mapsto> PyInt 1])
   \<and> map_option status (predictors (snd (status_set model0 (PyStr ''complete'') PyNone world1)) 1)
       = Some (PyStr ''complete'')
   \<and> data_of model0 (snd (status_set model0 (PyStr ''complete'') PyNone world1))
       = Some (PyDict [''a'' \<mapsto> PyInt 1])"
proof -
  have h: "predictors world1 (predictor_id model0) = Some (predictor0\<lparr>data := PyDict [''a'' \<mapsto> PyInt 1]\<rparr>)"
    by (simp add: world1_def model0_def)
  from status_set_replaces_data [OF h, of "PyStr ''complete''" PyNone] h
  show ?thesis by (simp add: model0_def data_of_def)
qed

subsection \<open>Integration rows\<close>

text \<open>
  Claim C7. \<open>update_connection_args\<close> raises \<open>KeyError\<close> exactly when the integration
  row is absent; on an existing row it replaces the whole of \<open>data\<close> by the
  arguments.
\<close>

theorem update_connection_args_not_found:
  "(integrations w (integration_id self) = None \<longrightarrow>
      update_connection_args self args w = (Inl (KeyError ''Can't find integration''), w))
   \<and> (\<forall>rec. integrations w (integration_id self) = Some rec \<longrightarrow>
        update_connection_args self args w =
          (Inr (), w\<lparr>integrations := (integrations w)
             (integration_id self \<mapsto> rec\<lparr>integration_data := args\<rparr>)\<rparr>))
   \<and> ((\<exists>e. fst (update_connection_args self args w) = Inl e)
        \<longleftrightarrow> integrations w (integration_id self) = None)"
  by (auto simp: update_connection_args_def split: option.splits)

theorem update_connection_args_not_found_witness:
  "integrations world0 (integration_id handler0) = Some \<lparr>integration_data = PyDict [''host'' \<mapsto> PyStr ''h'']\<rparr>
   \<and> map_option integration_data (integrations (snd (update_connection_args handler0 (PyDict [''port'' \<mapsto> PyInt 5432]) world0)) 1)
       = Some (PyDict [''port'' \<mapsto> PyInt 5432])
   \<and> integrations world0 (integration_id (handler0\<lparr>integration_id := 2\<rparr>)) = None
   \<and> update_connection_args (handler0\<lparr>integration_id := 2\<rparr>) (PyDict [''port'' \<mapsto> PyInt 5432]) world0
       = (Inl (KeyError ''Can't find integration''), world0)"
proof -
  have a: "integrations world0 (integration_id handler0) = Some \<lparr>integration_data = PyDict [''host'' \<mapsto> PyStr ''h'']\<rparr>"
    by (simp add: world0_def handler0_def)
  have b: "integrations world0 (integration_id (handler0\<lparr>integration_id := 2\<rparr>)) = None"
    by (simp add: world0_def)
  from update_connection_args_not_found [of world0 handler0 "PyDict [''port'' \<mapsto> PyInt 5432]"]
       update_connection_args_not_found [of world0 "handler0\<lparr>integration_id := 2\<rparr>" "PyDict [''port'' \<mapsto> PyInt 5432]"]
       a b
  show ?thesis by (simp add: handler0_def)
qed

subsection \<open>The local folder of a handler\<close>

lemma is_empty_loop_iff:
  "is_empty_loop names es \<longleftrightarrow> (\<forall>(name, nd) \<in> set es. is_file nd \<and> name \<in> set names)"
  by (induction names es rule: is_empty_loop.induct) auto

text \<open>
  Claim C8. \<open>is_empty\<close> returns true exactly when every entry of the local folder is
  a regular file with a service name; one more file without a service name, or a
  directory, makes it return false.
\<close>

theorem is_empty_iff_only_service_files:
  "(is_empty self w \<longleftrightarrow>
      (\<forall>(name, nd) \<in> set (folder w). is_file nd \<and> name \<in> set (SERVICE_FILES_NAMES (fileStorage self))))
   \<and> (is_empty self w \<and> name \<notin> set (SERVICE_FILES_NAMES (fileStorage self)) \<longrightarrow>
        \<not> is_empty self (w\<lparr>folder := folder w @ [(name, File c)]\<rparr>)
      \<and> \<not> is_empty self (w\<lparr>folder := (name, File c) # folder w\<rparr>))
   \<and> (\<not> is_empty self (w\<lparr>folder := folder w @ [(name, Dir ds)]\<rparr>)
      \<and> \<not> is_empty self (w\<lparr>folder := (name, Dir ds) # folder w\<rparr>))"
  by (auto simp: is_empty_def is_empty_loop_iff)

theorem is_empty_iff_only_service_files_witness:
  "is_empty handler0 (world0\<lparr>folder := [(''.last_modified.txt'', File [1, 2])]\<rparr>)
   \<and> ''model.bin'' \<notin> set (SERVICE_FILES_NAMES (fileStorage handler0))
   \<and> \<not> is_empty handler0 (world0\<lparr>folder := [(''.last_modified.txt'', File [1, 2]), (''model.bin'', File [7])]\<rparr>)
   \<and> \<not> is_empty handler0 (world0\<lparr>folder := [(''.last_modified.txt'', Dir [])]\<rparr>)"
proof -
  let ?w = "world0\<lparr>folder := [(''.last_modified.txt'', File [1, 2])]\<rparr>"
  have s: "SERVICE_FILES_NAMES (fileStorage handler0) = [''.last_modified.txt'']"
    by (simp add: handler0_def local_store_def)
  have e: "is_empty handler0 ?w"
    using is_empty_iff_only_service_files [of handler0 ?w] by (simp add: s)
  have n: "''model.bin'' \<notin> set (SERVICE_FILES_NAMES (fileStorage handler0))"
    by (simp add: s)
  have "\<not> is_empty handler0 (?w\<lparr>folder := folder ?w @ [(''model.bin'', File [7])]\<rparr>)"
    using is_empty_iff_only_service_files [of handler0 ?w "''model.bin''" "[7]"] e n by blast
  moreover have "\<not> is_empty handler0 (world0\<lparr>folder := [(''.last_modified.txt'', Dir [])]\<rparr>)"
    using is_empty_iff_only_service_files [of handler0 "world0\<lparr>folder := [(''.last_modified.txt'', Dir [])]\<rparr>"]
    by simp
  ultimately show ?thesis using e n by simp
qed

subsection \<open>The methods without a body\<close>

text \<open>
  Claim C10. \<open>file_list\<close>, \<open>file_del\<close>, \<open>json_list\<close> and \<open>json_del\<close> of both classes
  return \<open>None\<close> and leave the rows, the files and the JSON values as they are; they
  raise nothing.
\<close>

theorem unimplemented_operations_do_nothing:
  "ModelStorage_file_list m w = (PyNone, w) \<and> ModelStorage_file_del m name w = (PyNone, w)
   \<and> ModelStorage_json_list m w = (PyNone, w) \<and> ModelStorage_json_del m name w = (PyNone, w)
   \<and> HandlerStorage_file_list h w = (PyNone, w) \<and> HandlerStorage_file_del h name w = (PyNone, w)
   \<and> HandlerStorage_json_list h w = (PyNone, w) \<and> HandlerStorage_json_del h name w = (PyNone, w)"
  by (simp add: ModelStorage_file_list_def ModelStorage_file_del_def ModelStorage_json_list_def
      ModelStorage_json_del_def HandlerStorage_file_list_def HandlerStorage_file_del_def
      HandlerStorage_json_list_def HandlerStorage_json_del_def)

subsection \<open>Calls on the file storage\<close>

lemma calls_pull_path: "calls (fileStorage_pull_path fs name w) = calls w @ [PullPath name]"
  by (simp add: fileStorage_pull_path_def split: prod.splits)

lemma calls_push_path: "calls (fileStorage_push_path fs name w) = calls w @ [PushPath name]"
  by (simp add: fileStorage_push_path_def split: prod.splits)

lemma calls_file_set: "calls (fileStorage_file_set fs name content w) = calls w @ [FileSet name content]"
  by (simp add: fileStorage_file_set_def split: prod.splits)

lemma calls_file_get: "calls (snd (fileStorage_file_get fs name w)) = calls w @ [FileGet name]"
  by (simp add: fileStorage_file_get_def)

lemma calls_get_path: "calls (snd (fileStorage_get_path fs name w)) = calls w @ [GetPath name]"
  by (simp add: fileStorage_get_path_def)

lemma calls_folder_get:
  "calls (snd (HandlerStorage_folder_get self name w))
     = calls w @ [PullPath (convert_name name), GetPath (convert_name name)]"
  by (simp add: HandlerStorage_folder_get_def Let_def calls_get_path calls_pull_path)

lemma calls_file_get_handler:
  "calls (snd (HandlerStorage_file_get self name w)) = calls w @ [PullPath name, FileGet name]"
  by (simp add: HandlerStorage_file_get_def Let_def calls_file_get calls_pull_path)

lemma calls_file_set_handler:
  "calls (HandlerStorage_file_set self name content w)
     = calls w @ FileSet name content # (if is_temporal self then [] else [PushPath name])"
  by (simp add: HandlerStorage_file_set_def Let_def calls_file_set calls_push_path)

lemma calls_folder_sync:
  "calls (HandlerStorage_folder_sync self name w)
     = calls w @ (if is_temporal self then [] else [PushPath (convert_name name)])"
  by (simp add: HandlerStorage_folder_sync_def calls_push_path)

lemma calls_export_files:
  "calls (snd (HandlerStorage_export_files self w))
     = calls w @ (if is_empty self w then [] else [PullPath (convert_name []), GetPath (convert_name [])])"
  using calls_folder_get [of self "[]" w]
  by (cases "HandlerStorage_folder_get self [] w") (simp add: HandlerStorage_export_files_def)

lemma calls_import_files:
  "is_temporal self \<Longrightarrow> calls (snd (HandlerStorage_import_files self content w))
     = calls w @ [PullPath (convert_name []), GetPath (convert_name [])]"
  using calls_folder_get [of self "[]" w]
  by (cases "HandlerStorage_folder_get self [] w")
     (auto simp: HandlerStorage_import_files_def HandlerStorage_folder_sync_def
      split: prod.splits option.splits)

lemma perform_temporal:
  "is_temporal self \<Longrightarrow> filter is_push (calls (perform self op w)) = filter is_push (calls w)"
proof (cases op)
  case IsEmpty then show ?thesis by simp
next
  case GetConnectionArgs
  then show ?thesis by (simp add: get_connection_args_def split: option.splits)
next
  case (UpdateConnectionArgs a)
  then show ?thesis by (simp add: update_connection_args_def split: option.splits)
next
  case (FileGetOp name) then show ?thesis by (simp add: calls_file_get_handler)
next
  case (FileSetOp name content)
  assume "is_temporal self"
  with FileSetOp show ?thesis by (simp add: calls_file_set_handler)
next
  case FileListOp then show ?thesis by (simp add: HandlerStorage_file_list_def)
next
  case (FileDelOp name) then show ?thesis by (simp add: HandlerStorage_file_del_def)
next
  case (FolderGetOp name) then show ?thesis by (simp add: calls_folder_get)
next
  case (FolderSyncOp name)
  assume "is_temporal self"
  with FolderSyncOp show ?thesis by (simp add: calls_folder_sync)
next
  case (JsonSetOp name content)
  then show ?thesis by (simp add: HandlerStorage_json_set_def json_storage_set_def)
next
  case (JsonGetOp name)
  then show ?thesis by (simp add: HandlerStorage_json_get_def json_storage_get_def split: option.splits)
next
  case JsonListOp then show ?thesis by (simp add: HandlerStorage_json_list_def)
next
  case (JsonDelOp name) then show ?thesis by (simp add: HandlerStorage_json_del_def)
next
  case ExportFiles then show ?thesis by (simp add: calls_export_files)
next
  case (ImportFiles content)
  assume "is_temporal self"
  with ImportFiles show ?thesis by (simp add: calls_import_files)
qed

lemma perform_all_temporal:
  "is_temporal self \<Longrightarrow> filter is_push (calls (fold (perform self) ops w)) = filter is_push (calls w)"
  by (induction ops arbitrary: w) (simp_all add: perform_temporal)

text \<open>
  Claim C9. A temporal \<open>HandlerStorage\<close> never calls \<open>push_path\<close>, whatever the
  sequence of its methods: \<open>file_set\<close> only writes and \<open>folder_sync\<close> does nothing.
  One that is not temporal pushes the name after writing in \<open>file_set\<close>, and pushes
  the normalised name in \<open>folder_sync\<close>.
\<close>

theorem temporal_storage_never_pushes:
  "(is_temporal self \<longrightarrow>
       filter is_push (calls (fold (perform self) ops w)) = filter is_push (calls w)
     \<and> HandlerStorage_file_set self name content w
         = fileStorage_file_set (fileStorage self) name content w
     \<and> calls (HandlerStorage_file_set self name content w) = calls w @ [FileSet name content]
     \<and> HandlerStorage_folder_sync self name w = w)
   \<and> (\<not> is_temporal self \<longrightarrow>
       HandlerStorage_file_set self name content w
         = fileStorage_push_path (fileStorage self) name
             (fileStorage_file_set (fileStorage self) name content w)
     \<and> calls (HandlerStorage_file_set self name content w)
         = calls w @ [FileSet name content, PushPath name]
     \<and> HandlerStorage_folder_sync self name w
         = fileStorage_push_path (fileStorage self) (convert_name name) w
     \<and> calls (HandlerStorage_folder_sync self name w) = calls w @ [PushPath (convert_name name)])"
proof (intro conjI impI)
  assume t: "is_temporal self"
  show "filter is_push (calls (fold (perform self) ops w)) = filter is_push (calls w)"
    by (rule perform_all_temporal [OF t])
  show "HandlerStorage_file_set self name content w
         = fileStorage_file_set (fileStorage self) name content w"
    using t by (simp add: HandlerStorage_file_set_def)
  show "calls (HandlerStorage_file_set self name content w) = calls w @ [FileSet name content]"
    using t by (simp add: calls_file_set_handler)
  show "HandlerStorage_folder_sync self name w = w"
    using t by (simp add: HandlerStorage_folder_sync_def)
next
  assume n: "\<not> is_temporal self"
  show "HandlerStorage_file_set self name content w
         = fileStorage_push_path (fileStorage self) name
             (fileStorage_file_set (fileStorage self) name content w)"
    using n by (simp add: HandlerStorage_file_set_def)
  show "calls (HandlerStorage_file_set self name content w)
         = calls w @ [FileSet name content, PushPath name]"
    using n by (simp add: calls_file_set_handler)
  show "HandlerStorage_folder_sync self name w
         = fileStorage_push_path (fileStorage self) (convert_name name) w"
    using n by (simp add: HandlerStorage_folder_sync_def)
  show "calls (HandlerStorage_folder_sync self name w) = calls w @ [PushPath (convert_name name)]"
    using n by (simp add: calls_folder_sync)
qed

theorem temporal_storage_never_pushes_witness:
  "is_temporal temporal0
   \<and> filter is_push (calls (fold (perform temporal0)
        [FileSetOp ''My Model'' [1], FolderSyncOp ''My Model'', ExportFiles, ImportFiles (Some [])] world0)) = []
   \<and> calls (HandlerStorage_file_set temporal0 ''My Model'' [1] world0) = [FileSet ''My Model'' [1]]
   \<and> HandlerStorage_folder_sync temporal0 ''My Model'' world0 = world0
   \<and> \<not> is_temporal handler0
   \<and> calls (HandlerStorage_file_set handler0 ''My Model'' [1] world0)
       = [FileSet ''My Model'' [1], PushPath ''My Model'']
   \<and> calls (HandlerStorage_folder_sync handler0 ''My Model'' world0) = [PushPath ''my_model'']"
proof -
  let ?ops = "[FileSetOp ''My Model'' [1], FolderSyncOp ''My Model'', ExportFiles, ImportFiles (Some [])]"
  have t: "is_temporal temporal0" by (simp add: temporal0_def)
  have h: "\<not> is_temporal handler0" by (simp add: handler0_def)
  have c: "calls world0 = []" by (simp add: world0_def)
  have n: "convert_name ''My Model'' = ''my_model''" by code_simp
  note T = temporal_storage_never_pushes [of temporal0 ?ops world0 "''My Model''" "[1]"]
  note H = temporal_storage_never_pushes [of handler0 "[]" world0 "''My Model''" "[1]"]
  have 1: "filter is_push (calls (fold (perform temporal0) ?ops world0)) = filter is_push (calls world0)"
    using T t by blast
  have 2: "calls (HandlerStorage_file_set temporal0 ''My Model'' [1] world0) = calls world0 @ [FileSet ''My Model'' [1]]"
    using T t by blast
  have 3: "HandlerStorage_folder_sync temporal0 ''My Model'' world0 = world0"
    using T t by blast
  have 4: "calls (HandlerStorage_file_set handler0 ''My Model'' [1] world0)
       = calls world0 @ [FileSet ''My Model'' [1], PushPath ''My Model'']"
    using H h by blast
  have 5: "calls (HandlerStorage_folder_sync handler0 ''My Model'' world0)
       = calls world0 @ [PushPath (convert_name ''My Model'')]"
    using H h by blast
  show ?thesis
    unfolding 1 2 3 4 5 n c using t h by simp
qed

text \<open>
  Claim C6, as amended. \<open>file_get\<close> and \<open>file_set\<close> of a \<open>HandlerStorage\<close> hand the
  name to the file storage as it is; only \<open>folder_get\<close> and \<open>folder_sync\<close> normalise
  it first.
\<close>

theorem handler_file_ops_pass_name_unchanged:
  "calls (snd (HandlerStorage_file_get self name w)) = calls w @ [PullPath name, FileGet name]
   \<and> calls (HandlerStorage_file_set self name content w)
       = calls w @ FileSet name content # (if is_temporal self then [] else [PushPath name])
   \<and> calls (snd (HandlerStorage_folder_get self name w))
       = calls w @ [PullPath (convert_name name), GetPath (convert_name name)]
   \<and> calls (HandlerStorage_folder_sync self name w)
       = calls w @ (if is_temporal self then [] else [PushPath (convert_name name)])"
  by (simp add: calls_file_get_handler calls_file_set_handler calls_folder_get calls_folder_sync)

text \<open>
  Claim C6 as stated fails at the name \<open>My File\<close>: the file storage is called with
  \<open>My File\<close>, not with \<open>my_file\<close>.
\<close>

theorem handler_file_ops_normalize_counterexample:
  "convert_name ''My File'' = ''my_file''
   \<and> calls (snd (HandlerStorage_file_get handler0 ''My File'' world0))
       = [PullPath ''My File'', FileGet ''My File'']
   \<and> calls (HandlerStorage_file_set handler0 ''My File'' [1] world0)
       = [FileSet ''My File'' [1], PushPath ''My File'']
   \<and> calls (snd (HandlerStorage_file_get handler0 ''My File'' world0))
       \<noteq> [PullPath (convert_name ''My File''), FileGet (convert_name ''My File'')]
   \<and> calls (HandlerStorage_file_set handler0 ''My File'' [1] world0)
       \<noteq> [FileSet (convert_name ''My File'') [1], PushPath (convert_name ''My File'')]"
proof -
  have n: "convert_name ''My File'' = ''my_file''" by code_simp
  have c: "calls world0 = []" by (simp add: world0_def)
  have h: "\<not> is_temporal handler0" by (simp add: handler0_def)
  show ?thesis
    by (simp add: n c h calls_file_get_handler calls_file_set_handler)
qed

subsection \<open>Export and import of the folder\<close>

lemma zip_files_set:
  "(p, c) \<in> set (zip_files names root es)
     \<longleftrightarrow> (\<exists>n. p = root @ [n] \<and> (n, File c) \<in> set es \<and> n \<notin> set names)"
  by (induction names root es rule: zip_files.induct) auto

lemma lookup_nil: "lookup nd [] = Some c \<longleftrightarrow> nd = File c"
  by (cases nd) auto

lemma map_of_entry: "distinct (map fst es) \<Longrightarrow> (n, x) \<in> set es \<Longrightarrow> map_of es n = Some x"
  by simp

lemma walk_sound:
  "wf_node nd \<Longrightarrow> (p, c) \<in> set (walk names root nd)
     \<Longrightarrow> \<exists>q. p = root @ q \<and> q \<noteq> [] \<and> lookup nd q = Some c \<and> last q \<notin> set names"
proof (induction names root nd arbitrary: p rule: walk.induct)
  case (1 names root c')
  then show ?case by simp
next
  case (2 names root es)
  from "2.prems"(2) consider
      (here) "(p, c) \<in> set (zip_files names root es)"
    | (below) n x where "(n, x) \<in> set es" "(p, c) \<in> set (walk names (root @ [n]) x)"
    by auto
  then show ?case
  proof cases
    case here
    then obtain n where n: "p = root @ [n]" "(n, File c) \<in> set es" "n \<notin> set names"
      by (auto simp: zip_files_set)
    from "2.prems"(1) n(2) have "map_of es n = Some (File c)" by simp
    with n show ?thesis by (intro exI [of _ "[n]"]) simp
  next
    case below
    from "2.prems"(1) below(1) have m: "map_of es n = Some x" and w: "wf_node x" by auto
    from "2.IH" [OF below(1) refl w below(2)]
    obtain q where q: "p = (root @ [n]) @ q" "q \<noteq> []" "lookup x q = Some c" "last q \<notin> set names"
      by blast
    with m show ?thesis by (intro exI [of _ "n # q"]) simp
  qed
qed

lemma walk_complete:
  "lookup nd q = Some c \<Longrightarrow> q \<noteq> [] \<Longrightarrow> last q \<notin> set names
     \<Longrightarrow> (root @ q, c) \<in> set (walk names root nd)"
proof (induction nd q arbitrary: root rule: lookup.induct)
  case (4 es n p)
  from "4.prems"(1) obtain x where m: "map_of es n = Some x" and l: "lookup x p = Some c"
    by (auto split: option.splits)
  from m have e: "(n, x) \<in> set es" by (rule map_of_SomeD)
  show ?case
  proof (cases p)
    case Nil
    with l have "x = File c" by (simp add: lookup_nil)
    with e Nil "4.prems"(3) show ?thesis by (auto simp: zip_files_set)
  next
    case (Cons a p')
    with "4.prems"(3) have "last p \<notin> set names" by simp
    from "4.IH" [OF m l _ this, of "root @ [n]"] Cons
    have "(root @ n # p, c) \<in> set (walk names (root @ [n]) x)" by simp
    with e show ?thesis by auto
  qed
qed simp_all

lemma walk_set:
  "wf_node nd \<Longrightarrow> (p, c) \<in> set (walk names [] nd)
     \<longleftrightarrow> p \<noteq> [] \<and> lookup nd p = Some c \<and> last p \<notin> set names"
  using walk_sound [of nd p c names "[]"] walk_complete [of nd p c names "[]"] by auto

lemma write_member_same: "lookup nd p = Some c \<Longrightarrow> write_member p c nd = Inr nd"
  by (induction nd p rule: lookup.induct) (auto split: option.splits simp: update_triv)

lemma extractall_same:
  "\<forall>(p, c) \<in> set ms. lookup nd p = Some c \<Longrightarrow> extractall ms nd = (None, nd)"
  by (induction ms) (auto simp: write_member_same)

lemma lookup_create: "lookup (create p c) q = (if q = p then Some c else None)"
proof (induction p arbitrary: q)
  case Nil then show ?case by (cases q) auto
next
  case (Cons n p) then show ?case by (cases q) auto
qed

lemma wf_create: "wf_node (create p c)"
  by (induction p) auto

lemma within_create: "lookup y p = Some c \<Longrightarrow> within (create p c) y"
  by (induction y p rule: lookup.induct) (auto split: option.splits)


lemma update_entry:
  "distinct (map fst es) \<Longrightarrow> (m, z) \<in> set (AList.update n v es)
     \<Longrightarrow> (m = n \<and> z = v) \<or> (m \<noteq> n \<and> (m, z) \<in> set es)"
proof -
  assume d: "distinct (map fst es)" and e: "(m, z) \<in> set (AList.update n v es)"
  have "distinct (map fst (AList.update n v es))" using d by (rule distinct_update)
  with e have "map_of (AList.update n v es) m = Some z" by simp
  then have "((map_of es)(n \<mapsto> v)) m = Some z" by (simp add: update_conv')
  then show ?thesis by (auto split: if_splits dest: map_of_SomeD)
qed

lemma write_member_within:
  "lookup y p = Some c \<Longrightarrow> within x y \<Longrightarrow> wf_node x
     \<Longrightarrow> \<exists>x'. write_member p c x = Inr x' \<and> within x' y \<and> wf_node x'
           \<and> (\<forall>q. lookup x' q = (if q = p then Some c else lookup x q))"
proof (induction y p arbitrary: x rule: lookup.induct)
  case (1 c' x)
  then have c: "c' = c" by simp
  with 1 have "x = File c" by (cases x) auto
  with c show ?case by (auto simp: lookup_nil)
next
  case (2 c' n p)
  then show ?case by simp
next
  case (3 es')
  then show ?case by simp
next
  case (4 es' n p)
  from "4.prems"(1) obtain y' where m': "map_of es' n = Some y'" and l: "lookup y' p = Some c"
    by (auto split: option.splits)
  from "4.prems"(2) obtain es where x: "x = Dir es" by (cases x) auto
  from "4.prems"(3) x have d: "distinct (map fst es)" and wfs: "\<forall>(m, z) \<in> set es. wf_node z"
    by auto
  from "4.prems"(2) x
  have sub: "\<forall>(m, z) \<in> set es. case map_of es' m of None \<Rightarrow> False | Some y \<Rightarrow> within z y"
    by simp
  show ?case
  proof (cases "map_of es n")
    case None
    then have fresh: "n \<notin> fst ` set es" by (simp add: map_of_eq_None_iff)
    let ?x' = "Dir (es @ [(n, create p c)])"
    have w: "write_member (n # p) c x = Inr ?x'" using x None by simp
    have s: "within ?x' (Dir es')" using sub m' within_create [OF l] by auto
    have f: "wf_node ?x'" using d wfs fresh by (auto simp: wf_create)
    have q: "lookup ?x' q = (if q = n # p then Some c else lookup x q)" for q
    proof (cases q)
      case Nil then show ?thesis using x by simp
    next
      case (Cons a q')
      then show ?thesis using x None fresh
        by (auto simp: map_add_def lookup_create split: option.splits)
    qed
    from w s f q show ?thesis by blast
  next
    case (Some xn)
    then have e: "(n, xn) \<in> set es" by (rule map_of_SomeD)
    with sub m' have sn: "within xn y'" by auto
    from e wfs have wn: "wf_node xn" by auto
    from "4.IH" [OF m' l sn wn] obtain xn' where
      r: "write_member p c xn = Inr xn'" and s': "within xn' y'" and f': "wf_node xn'"
      and q': "\<And>q. lookup xn' q = (if q = p then Some c else lookup xn q)"
      by blast
    let ?x' = "Dir (AList.update n xn' es)"
    have w: "write_member (n # p) c x = Inr ?x'" using x Some r by simp
    have s: "within ?x' (Dir es')"
      using sub m' s' update_entry [OF d] by fastforce
    have f: "wf_node ?x'"
      using d wfs f' update_entry [OF d] by (fastforce simp: distinct_update)
    have q: "lookup ?x' q = (if q = n # p then Some c else lookup x q)" for q
    proof (cases q)
      case Nil then show ?thesis using x by simp
    next
      case (Cons a q'')
      then show ?thesis using x Some q' by (auto simp: update_conv')
    qed
    from w s f q show ?thesis by blast
  qed
qed

lemma extractall_within:
  "\<forall>(p, c) \<in> set ms. lookup y p = Some c \<Longrightarrow> within x y \<Longrightarrow> wf_node x
     \<Longrightarrow> \<exists>x'. extractall ms x = (None, x') \<and> within x' y \<and> wf_node x'
           \<and> (\<forall>q. lookup x' q = (if q \<in> fst ` set ms then lookup y q else lookup x q))"
proof (induction ms arbitrary: x)
  case Nil
  then show ?case by simp
next
  case (Cons m ms)
  obtain p c where m: "m = (p, c)" by (cases m)
  with Cons.prems(1) have l: "lookup y p = Some c"
    and rest: "\<forall>(p, c) \<in> set ms. lookup y p = Some c" by auto
  from write_member_within [OF l Cons.prems(2,3)] obtain x1 where
    w: "write_member p c x = Inr x1" and s1: "within x1 y" and f1: "wf_node x1"
    and q1: "\<And>q. lookup x1 q = (if q = p then Some c else lookup x q)"
    by blast
  from Cons.IH [OF rest s1 f1] obtain x' where
    e: "extractall ms x1 = (None, x')" and s: "within x' y" and f: "wf_node x'"
    and q: "\<And>q. lookup x' q = (if q \<in> fst ` set ms then lookup y q else lookup x1 q)"
    by blast
  have "extractall (m # ms) x = (None, x')" using m w e by simp
  moreover have "lookup x' q = (if q \<in> fst ` set (m # ms) then lookup y q else lookup x q)" for q
    using q [of q] q1 [of q] m l by auto
  ultimately show ?case using s f by blast
qed

lemma extractall_fresh:
  assumes "wf_node (Dir es)"
  shows "\<exists>es'. extractall (walk names [] (Dir es)) (Dir []) = (None, Dir es')
           \<and> wf_node (Dir es')
           \<and> (\<forall>q. lookup (Dir es') q
                 = (if q \<noteq> [] \<and> last q \<notin> set names then lookup (Dir es) q else None))"
proof -
  let ?ms = "walk names [] (Dir es)"
  have a: "\<forall>(p, c) \<in> set ?ms. lookup (Dir es) p = Some c"
    using walk_set [OF assms] by blast
  have b: "within (Dir []) (Dir es)" by simp
  have c: "wf_node (Dir [])" by simp
  from extractall_within [OF a b c] obtain x' where
    e: "extractall ?ms (Dir []) = (None, x')" and w: "within x' (Dir es)" and f: "wf_node x'"
    and q: "\<And>q. lookup x' q = (if q \<in> fst ` set ?ms then lookup (Dir es) q else lookup (Dir []) q)"
    by blast
  from w obtain es' where x': "x' = Dir es'" by (cases x') auto
  have "lookup (Dir es') q
          = (if q \<noteq> [] \<and> last q \<notin> set names then lookup (Dir es) q else None)" for q
  proof (cases "q \<in> fst ` set ?ms")
    case True
    then obtain c where "(q, c) \<in> set ?ms" by force
    with walk_set [OF assms] have "q \<noteq> [] \<and> lookup (Dir es) q = Some c \<and> last q \<notin> set names"
      by blast
    with True q [of q] x' show ?thesis by simp
  next
    case False
    have "lookup (Dir es) q = None" if "q \<noteq> []" "last q \<notin> set names"
    proof (rule ccontr)
      assume "lookup (Dir es) q \<noteq> None"
      then obtain c where "lookup (Dir es) q = Some c" by auto
      with that walk_set [OF assms, of q c names] have "(q, c) \<in> set ?ms" by simp
      with False show False by force
    qed
    with False q [of q] x' show ?thesis by (cases q) auto
  qed
  with e f x' show ?thesis by blast
qed

lemma extractall_again:
  assumes "wf_node (Dir es)"
  shows "extractall (walk names [] (Dir es)) (Dir es) = (None, Dir es)"
  using walk_set [OF assms] by (intro extractall_same) blast

lemma convert_name_empty: "convert_name [] = []"
  by (simp add: convert_name_def lower_def replace_def)

lemma folder_get_pulled:
  "folder (snd (HandlerStorage_folder_get self [] w)) = pulled self w"
  by (simp add: HandlerStorage_folder_get_def fileStorage_get_path_def fileStorage_pull_path_def
      convert_name_empty pulled_def Let_def split: prod.splits)

lemma remote_folder_get:
  "remote (snd (HandlerStorage_folder_get self [] w))
     = snd (on_pull_path (fileStorage self) [] (folder w, remote w))"
  by (simp add: HandlerStorage_folder_get_def fileStorage_get_path_def fileStorage_pull_path_def
      convert_name_empty Let_def split: prod.splits)

lemma folder_sync_keeps:
  "push_keeps self w \<Longrightarrow> folder (HandlerStorage_folder_sync self [] w) = folder w"
  by (auto simp: HandlerStorage_folder_sync_def fileStorage_push_path_def
      convert_name_empty push_keeps_def split: prod.splits)

lemma export_files_eq:
  "\<not> is_empty self w \<Longrightarrow> HandlerStorage_export_files self w
     = (Some (walk (SERVICE_FILES_NAMES (fileStorage self)) []
                (Dir (folder (snd (HandlerStorage_folder_get self [] w))))),
        snd (HandlerStorage_folder_get self [] w))"
  by (cases "HandlerStorage_folder_get self [] w") (simp add: HandlerStorage_export_files_def)

lemma import_files_eq:
  "extractall members (Dir (folder (snd (HandlerStorage_folder_get self [] w)))) = (None, Dir es)
     \<Longrightarrow> HandlerStorage_import_files self (Some members) w
       = (Inr (), HandlerStorage_folder_sync self []
            ((snd (HandlerStorage_folder_get self [] w))\<lparr>folder := es\<rparr>))"
  by (cases "HandlerStorage_folder_get self [] w") (simp add: HandlerStorage_import_files_def)

lemma non_service_files_walk:
  "wf_node (Dir es) \<Longrightarrow> set (walk names [] (Dir es)) = non_service_files names es"
proof -
  assume w: "wf_node (Dir es)"
  have "(p, c) \<in> set (walk names [] (Dir es)) \<longleftrightarrow> (p, c) \<in> non_service_files names es" for p c
    using walk_set [OF w, of p c names] by (cases p) (auto simp: non_service_files_def)
  then show ?thesis by (auto simp del: walk.simps)
qed

lemma mirror_push_keeps: "push_keeps mirror_handler t"
  by (simp add: push_keeps_def mirror_handler_def mirror_store_def)

lemma pulled_mirror: "pulled mirror_handler t = remote t"
  by (simp add: pulled_def mirror_handler_def mirror_store_def)

lemma export_synced_world:
  "HandlerStorage_export_files mirror_handler synced_world
     = (Some [([''model.bin''], [1, 2]), ([''sub'', ''a.txt''], [3])],
        synced_world\<lparr>calls := [PullPath [], GetPath []]\<rparr>)"
  by (simp add: HandlerStorage_export_files_def HandlerStorage_folder_get_def is_empty_def
      fileStorage_pull_path_def fileStorage_get_path_def mirror_handler_def synced_world_def
      folder0_def mirror_store_def convert_name_empty)

lemma import_fresh_world:
  "folder (snd (HandlerStorage_import_files mirror_handler
       (Some [([''model.bin''], [1, 2]), ([''sub'', ''a.txt''], [3])]) fresh_world))
     = [(''model.bin'', File [1, 2]), (''sub'', Dir [(''a.txt'', File [3])])]"
  by (simp add: HandlerStorage_import_files_def HandlerStorage_folder_get_def
      HandlerStorage_folder_sync_def fileStorage_push_path_def
      fileStorage_pull_path_def fileStorage_get_path_def mirror_handler_def fresh_world_def
      mirror_store_def convert_name_empty)

text \<open>
  Claim C1, as amended. Let \<open>is_empty\<close> be false. \<open>export_files\<close> returns an archive
  whose members are exactly the files without a service name, under their
  relative paths and with their contents, of the folder as the pull made by
  \<open>export_files\<close> leaves it; these are the files that were there before the export
  when that pull leaves the folder as it is. \<open>import_files\<close> of this archive, by
  any handler whose own pull leaves the exported folder or an empty folder,
  extracts every member: the folder is then the exported folder, respectively
  holds exactly the exported files, and it stays so when the closing
  \<open>folder_sync\<close> leaves the folder as it is.
\<close>

theorem export_import_round_trip:
  fixes self :: "'r HandlerStorage" and other :: "'s HandlerStorage"
  assumes "\<not> is_empty self w"
    and "wf_node (Dir (pulled self w))"
  shows "\<exists>members w1.
           HandlerStorage_export_files self w = (Some members, w1)
         \<and> folder w1 = pulled self w
         \<and> set members = non_service_files (SERVICE_FILES_NAMES (fileStorage self)) (pulled self w)
         \<and> (pull_keeps self w \<longrightarrow>
               set members = non_service_files (SERVICE_FILES_NAMES (fileStorage self)) (folder w))
         \<and> (\<forall>t. pulled other t = pulled self w \<longrightarrow>
               (\<exists>t1. HandlerStorage_import_files other (Some members) t
                        = (Inr (), HandlerStorage_folder_sync other [] t1)
                  \<and> folder t1 = pulled self w
                  \<and> (push_keeps other t1 \<longrightarrow>
                        folder (HandlerStorage_folder_sync other [] t1) = pulled self w)))
         \<and> (\<forall>t. pulled other t = [] \<longrightarrow>
               (\<exists>t1. HandlerStorage_import_files other (Some members) t
                        = (Inr (), HandlerStorage_folder_sync other [] t1)
                  \<and> files_of (folder t1)
                      = non_service_files (SERVICE_FILES_NAMES (fileStorage self)) (pulled self w)
                  \<and> (push_keeps other t1 \<longrightarrow>
                        files_of (folder (HandlerStorage_folder_sync other [] t1))
                          = non_service_files (SERVICE_FILES_NAMES (fileStorage self))
                              (pulled self w))))"
proof -
  let ?names = "SERVICE_FILES_NAMES (fileStorage self)"
  let ?w1 = "snd (HandlerStorage_folder_get self [] w)"
  let ?src = "pulled self w"
  let ?members = "walk ?names [] (Dir ?src)"
  have f1: "folder ?w1 = ?src" by (rule folder_get_pulled)
  have ex: "HandlerStorage_export_files self w = (Some ?members, ?w1)"
    using export_files_eq [OF assms(1)] f1 by simp
  have mem: "set ?members = non_service_files ?names ?src"
    by (rule non_service_files_walk [OF assms(2)])
  have before: "pull_keeps self w \<longrightarrow> set ?members = non_service_files ?names (folder w)"
  proof
    assume "pull_keeps self w"
    then have "pulled self w = folder w" by (simp add: pull_keeps_def)
    with mem show "set ?members = non_service_files ?names (folder w)"
      by (simp del: walk.simps)
  qed
  have same: "\<exists>t1. HandlerStorage_import_files other (Some ?members) t
                        = (Inr (), HandlerStorage_folder_sync other [] t1)
                  \<and> folder t1 = ?src
                  \<and> (push_keeps other t1 \<longrightarrow>
                        folder (HandlerStorage_folder_sync other [] t1) = ?src)"
    if p: "pulled other t = ?src" for t
  proof -
    let ?t0 = "snd (HandlerStorage_folder_get other [] t)"
    let ?t1 = "?t0\<lparr>folder := ?src\<rparr>"
    have f: "folder ?t0 = ?src" using folder_get_pulled [of other t] p by simp
    have "extractall ?members (Dir (folder ?t0)) = (None, Dir ?src)"
      unfolding f by (rule extractall_again [OF assms(2)])
    from import_files_eq [OF this]
    have "HandlerStorage_import_files other (Some ?members) t
            = (Inr (), HandlerStorage_folder_sync other [] ?t1)" .
    moreover have "folder ?t1 = ?src" by simp
    moreover have "push_keeps other ?t1 \<longrightarrow> folder (HandlerStorage_folder_sync other [] ?t1) = ?src"
      using folder_sync_keeps [of other ?t1] by simp
    ultimately show ?thesis by blast
  qed
  have fresh: "\<exists>t1. HandlerStorage_import_files other (Some ?members) t
                        = (Inr (), HandlerStorage_folder_sync other [] t1)
                  \<and> files_of (folder t1) = non_service_files ?names ?src
                  \<and> (push_keeps other t1 \<longrightarrow>
                        files_of (folder (HandlerStorage_folder_sync other [] t1))
                          = non_service_files ?names ?src)"
    if p: "pulled other t = []" for t
  proof -
    let ?t0 = "snd (HandlerStorage_folder_get other [] t)"
    have f: "folder ?t0 = []" using folder_get_pulled [of other t] p by simp
    from extractall_fresh [OF assms(2), of ?names] obtain es' where
      x: "extractall ?members (Dir []) = (None, Dir es')"
      and q: "\<And>q. lookup (Dir es') q
                 = (if q \<noteq> [] \<and> last q \<notin> set ?names then lookup (Dir ?src) q else None)"
      by blast
    let ?t1 = "?t0\<lparr>folder := es'\<rparr>"
    have "extractall ?members (Dir (folder ?t0)) = (None, Dir es')"
      unfolding f by (rule x)
    from import_files_eq [OF this]
    have i: "HandlerStorage_import_files other (Some ?members) t
            = (Inr (), HandlerStorage_folder_sync other [] ?t1)" .
    have fo: "files_of es' = non_service_files ?names ?src"
      using q by (auto simp: files_of_def non_service_files_def split: if_splits)
    then have a: "files_of (folder ?t1) = non_service_files ?names ?src" by simp
    have "push_keeps other ?t1 \<longrightarrow>
            files_of (folder (HandlerStorage_folder_sync other [] ?t1)) = non_service_files ?names ?src"
      using folder_sync_keeps [of other ?t1] fo by simp
    with i a show ?thesis by blast
  qed
  from ex f1 mem before same fresh show ?thesis by blast
qed

theorem export_import_round_trip_witness:
  "\<not> is_empty mirror_handler synced_world
   \<and> wf_node (Dir (pulled mirror_handler synced_world))
   \<and> pull_keeps mirror_handler synced_world
   \<and> fst (HandlerStorage_export_files mirror_handler synced_world)
       = Some [([''model.bin''], [1, 2]), ([''sub'', ''a.txt''], [3])]
   \<and> set [([''model.bin''], [1, 2]), ([''sub'', ''a.txt''], [3])]
       = non_service_files [''.last_modified.txt''] folder0
   \<and> fst (HandlerStorage_import_files mirror_handler
          (fst (HandlerStorage_export_files mirror_handler synced_world))
          (snd (HandlerStorage_export_files mirror_handler synced_world))) = Inr ()
   \<and> folder (snd (HandlerStorage_import_files mirror_handler
          (fst (HandlerStorage_export_files mirror_handler synced_world))
          (snd (HandlerStorage_export_files mirror_handler synced_world)))) = folder0
   \<and> pulled mirror_handler fresh_world = []
   \<and> fst (HandlerStorage_import_files mirror_handler
          (fst (HandlerStorage_export_files mirror_handler synced_world)) fresh_world) = Inr ()
   \<and> folder (snd (HandlerStorage_import_files mirror_handler
          (fst (HandlerStorage_export_files mirror_handler synced_world)) fresh_world))
       = [(''model.bin'', File [1, 2]), (''sub'', Dir [(''a.txt'', File [3])])]
   \<and> files_of (folder (snd (HandlerStorage_import_files mirror_handler
          (fst (HandlerStorage_export_files mirror_handler synced_world)) fresh_world)))
       = non_service_files [''.last_modified.txt''] folder0"
proof -
  let ?ms = "[([''model.bin''], [1, 2]), ([''sub'', ''a.txt''], [3])] :: archive"
  let ?w1 = "synced_world\<lparr>calls := [PullPath [], GetPath []]\<rparr>"
  have n: "\<not> is_empty mirror_handler synced_world"
    by (simp add: is_empty_def synced_world_def folder0_def mirror_handler_def mirror_store_def)
  have p: "pulled mirror_handler synced_world = folder0"
    by (simp add: pulled_mirror synced_world_def)
  have w: "wf_node (Dir (pulled mirror_handler synced_world))"
    unfolding p by (simp add: folder0_def)
  have k: "pull_keeps mirror_handler synced_world"
    by (simp add: pull_keeps_def p) (simp add: synced_world_def)
  have s: "SERVICE_FILES_NAMES (fileStorage mirror_handler) = [''.last_modified.txt'']"
    by (simp add: mirror_handler_def mirror_store_def)
  have p1: "pulled mirror_handler ?w1 = folder0"
    by (simp add: pulled_mirror synced_world_def)
  have p0: "pulled mirror_handler fresh_world = []"
    by (simp add: pulled_mirror fresh_world_def)
  from export_import_round_trip [OF n w, where other = mirror_handler] obtain members w1 where
    e: "HandlerStorage_export_files mirror_handler synced_world = (Some members, w1)"
    and m: "set members = non_service_files [''.last_modified.txt''] folder0"
    and a: "\<forall>t. pulled mirror_handler t = folder0 \<longrightarrow>
               (\<exists>t1. HandlerStorage_import_files mirror_handler (Some members) t
                        = (Inr (), HandlerStorage_folder_sync mirror_handler [] t1)
                  \<and> folder t1 = folder0
                  \<and> (push_keeps mirror_handler t1 \<longrightarrow>
                        folder (HandlerStorage_folder_sync mirror_handler [] t1) = folder0))"
    and b: "\<forall>t. pulled mirror_handler t = [] \<longrightarrow>
               (\<exists>t1. HandlerStorage_import_files mirror_handler (Some members) t
                        = (Inr (), HandlerStorage_folder_sync mirror_handler [] t1)
                  \<and> files_of (folder t1) = non_service_files [''.last_modified.txt''] folder0
                  \<and> (push_keeps mirror_handler t1 \<longrightarrow>
                        files_of (folder (HandlerStorage_folder_sync mirror_handler [] t1))
                          = non_service_files [''.last_modified.txt''] folder0))"
    unfolding s p by (elim exE conjE)
  from e export_synced_world have c: "members = ?ms" "w1 = ?w1"
    by simp_all
  from a p1 mirror_push_keeps obtain t2 where
    i1: "HandlerStorage_import_files mirror_handler (Some members) ?w1 = (Inr (), t2)"
    and f1: "folder t2 = folder0"
    by blast
  from b p0 mirror_push_keeps obtain t3 where
    i2: "HandlerStorage_import_files mirror_handler (Some members) fresh_world = (Inr (), t3)"
    and f2: "files_of (folder t3) = non_service_files [''.last_modified.txt''] folder0"
    by blast
  have f3: "folder t3 = [(''model.bin'', File [1, 2]), (''sub'', Dir [(''a.txt'', File [3])])]"
    using i2 import_fresh_world c by simp
  show ?thesis
    using n w k m p0 i1 f1 i2 f2 f3
    unfolding e c fst_conv snd_conv by simp
qed

text \<open>
  Claim C1 as stated fails when the pull changes the folder: \<open>export_files\<close> walks
  the folder after \<open>folder_get\<close> has pulled it, so the archive holds what the pull
  brought and the file \<open>a.txt\<close> that was there before the export is not restored.
\<close>

theorem export_import_round_trip_counterexample:
  "\<not> is_empty mirror_handler mirror_world
   \<and> wf_node (Dir (folder mirror_world))
   \<and> lookup (Dir (folder mirror_world)) [''a.txt''] = Some [1]
   \<and> ''a.txt'' \<notin> set (SERVICE_FILES_NAMES (fileStorage mirror_handler))
   \<and> fst (HandlerStorage_export_files mirror_handler mirror_world) = Some [([''b.txt''], [2])]
   \<and> fst (HandlerStorage_import_files mirror_handler
            (fst (HandlerStorage_export_files mirror_handler mirror_world))
            (snd (HandlerStorage_export_files mirror_handler mirror_world))) = Inr ()
   \<and> folder (snd (HandlerStorage_import_files mirror_handler
            (fst (HandlerStorage_export_files mirror_handler mirror_world))
            (snd (HandlerStorage_export_files mirror_handler mirror_world))))
       = [(''b.txt'', File [2])]
   \<and> lookup (Dir [(''b.txt'', File [2])]) [''a.txt''] = None"
  by (simp add: HandlerStorage_export_files_def HandlerStorage_import_files_def
      HandlerStorage_folder_get_def HandlerStorage_folder_sync_def is_empty_def
      fileStorage_pull_path_def fileStorage_push_path_def fileStorage_get_path_def
      mirror_handler_def mirror_world_def mirror_store_def convert_name_empty)

end
